theory Spec2Isabelle
  imports Main
begin

section \<open>Python values, errors, keyword arguments\<close>

text \<open>
  The source file \<^verbatim>\<open>PyOpenWorm/channelworm.py\<close> defines four entity classes.
  Their constructors receive Python values; the ones that matter to the constructors are
  strings (tested with \<^verbatim>\<open>isinstance(modelType, str)\<close>), the default \<^verbatim>\<open>False\<close>,
  and references to other entities, which carry the name of their class.
\<close>

datatype pyval = PNone | PBool bool | PInt int | PStr string | PObj string

text \<open>
  Every exception a constructor can end with is a value. The first three are the
  error taxonomy of the mapping contract; \<open>AttributeError\<close> is Python's own for
  \<^verbatim>\<open>getattr\<close> on a missing name, \<open>TypeError\<close> the one for a keyword bound twice in a call.
\<close>

datatype error =
    SchemaConflict string
  | TypeMismatch string
  | UnrecognizedArgument string
  | AttributeError string
  | TypeError string

text \<open>
  \<^verbatim>\<open>**kwargs\<close> is a dictionary from names to values. It is kept as an association
  list in the order of the dictionary; a Python dictionary never holds a key twice, which
  theorems state as \<open>distinct (map fst kwargs)\<close>.
\<close>

type_synonym kwargs = "(string \<times> pyval) list"

section \<open>Attribute declarations and accessors\<close>

datatype cardinality = Single | Multiple

datatype kind = Scalar | Relationship string

text \<open>
  One declared attribute of an entity: its name, the class whose \<^verbatim>\<open>DatatypeProperty\<close> or
  \<^verbatim>\<open>ObjectProperty\<close> made it, its cardinality, its kind (a relationship carries the name
  of its target class) and the values it holds.
\<close>

record property =
  linkName :: string
  owner_class :: string
  card :: cardinality
  pkind :: kind
  pvalues :: "pyval list"

text \<open>An entity instance: the attributes bound to it, in the order of their declaration.\<close>

record entity =
  props :: "property list"

text \<open>
  Modelled from the spec: the attribute declaration \<^verbatim>\<open>declare(name, owner_class,
  cardinality, kind, [target_type])\<close> behind \<^verbatim>\<open>DatatypeProperty\<close> and \<^verbatim>\<open>ObjectProperty\<close>,
  which are class methods of \<^verbatim>\<open>DataObject\<close> (module \<^verbatim>\<open>dataObject\<close>, not part of the source
  file). The name must not already exist in the owner's schema, ancestors' declarations
  included; a redeclaration is a \<open>SchemaConflict\<close>. The source passes the instance
  itself as the owner (\<^verbatim>\<open>DatatypeProperty(c, self)\<close>), so the schema that is checked and
  extended is the table of attributes bound to that instance. The new accessor holds no
  value.
\<close>

definition declare_attr ::
  "string \<Rightarrow> string \<Rightarrow> cardinality \<Rightarrow> kind \<Rightarrow> entity \<Rightarrow> error + entity" where
  "declare_attr n cls c k self =
     (if n \<in> set (map linkName (props self)) then Inl (SchemaConflict n)
      else Inr (self\<lparr>props := props self @
             [\<lparr>linkName = n, owner_class = cls, card = c, pkind = k, pvalues = []\<rparr>]\<rparr>))"

text \<open>
  Modelled from the spec: the class method \<^verbatim>\<open>cls.DatatypeProperty(linkName, owner,
  multiple=False)\<close> of \<^verbatim>\<open>DataObject\<close> (not part of the source file) declares a scalar
  attribute of the given cardinality.
\<close>

definition DatatypeProperty :: "string \<Rightarrow> string \<Rightarrow> entity \<Rightarrow> bool \<Rightarrow> error + entity" where
  "DatatypeProperty cls n self multiple =
     declare_attr n cls (if multiple then Multiple else Single) Scalar self"

text \<open>
  Modelled from the spec: the class method \<^verbatim>\<open>cls.ObjectProperty(..., value_type=T)\<close> of
  \<^verbatim>\<open>DataObject\<close> (not part of the source file) declares a relationship whose target is
  the class \<open>T\<close>.
\<close>

definition ObjectProperty ::
  "string \<Rightarrow> string \<Rightarrow> entity \<Rightarrow> string \<Rightarrow> bool \<Rightarrow> error + entity" where
  "ObjectProperty cls n self value_type multiple =
     declare_attr n cls (if multiple then Multiple else Single) (Relationship value_type) self"

text \<open>
  The accessor of a declared attribute is the property object of the object store, whose
  class is not part of the source file. The spec gives its contract: called with a value
  (\<^verbatim>\<open>self.modelType(v)\<close>, \<^verbatim>\<open>getattr(self, c).set(v)\<close>) it sets the value of a
  single-valued attribute and adds the value to a multiple-valued one, after checking a
  relationship's value against the target type; called with no argument it returns the
  single value, or the sequence of values.
\<close>

text \<open>
  Modelled from the spec: the type check of the accessor, which is missing from the source
  file. A scalar attribute takes any value, a relationship an entity of its target class.
\<close>

definition accepts :: "kind \<Rightarrow> pyval \<Rightarrow> bool" where
  "accepts k v =
     (case k of
        Scalar \<Rightarrow> True
      | Relationship t \<Rightarrow> (case v of PObj c \<Rightarrow> c = t | _ \<Rightarrow> False))"

text \<open>
  Modelled from the spec: what the accessor, missing from the source file, does with an
  accepted value. A single-valued attribute holds the new value only, a multiple-valued
  one the values it held and then the new one.
\<close>

definition store :: "property \<Rightarrow> pyval \<Rightarrow> property" where
  "store p v =
     p\<lparr>pvalues := (case card p of Single \<Rightarrow> [v] | Multiple \<Rightarrow> pvalues p @ [v])\<rparr>"

text \<open>
  Modelled from the spec: the accessor, missing from the source file, called with a value
  on the attribute named \<open>n\<close>. \<^verbatim>\<open>getattr\<close> of a name that was never declared is Python's
  \<open>AttributeError\<close>; a value of the wrong type for a relationship is a \<open>TypeMismatch\<close>.
\<close>

fun set_in :: "string \<Rightarrow> pyval \<Rightarrow> property list \<Rightarrow> error + property list" where
  "set_in n v [] = Inl (AttributeError n)"
| "set_in n v (p # ps) =
     (if linkName p = n
      then (if accepts (pkind p) v then Inr (store p v # ps) else Inl (TypeMismatch n))
      else (case set_in n v ps of Inl e \<Rightarrow> Inl e | Inr ps' \<Rightarrow> Inr (p # ps')))"

text \<open>
  Modelled from the spec: \<^verbatim>\<open>getattr(self, n).set(v)\<close> and \<^verbatim>\<open>self.n(v)\<close>, the accessor
  (missing from the source file) called with a value on an instance.
\<close>

definition attr_set :: "entity \<Rightarrow> string \<Rightarrow> pyval \<Rightarrow> error + entity" where
  "attr_set self n v =
     (case set_in n v (props self) of
        Inl e \<Rightarrow> Inl e
      | Inr ps \<Rightarrow> Inr (self\<lparr>props := ps\<rparr>))"

datatype reading = One "pyval option" | Many "pyval list"

text \<open>
  Modelled from the spec: the accessor, missing from the source file, called with no
  argument: the value of a single-valued attribute (none if it holds none), the sequence
  of values of a multiple-valued one.
\<close>

definition read_property :: "property \<Rightarrow> reading" where
  "read_property p =
     (case card p of
        Single \<Rightarrow> One (case pvalues p of [] \<Rightarrow> None | v # _ \<Rightarrow> Some v)
      | Multiple \<Rightarrow> Many (pvalues p))"

text \<open>
  Modelled from the spec: \<^verbatim>\<open>self.n()\<close>, the accessor (missing from the source file) called
  with no argument on an instance.
\<close>

definition attr_get :: "entity \<Rightarrow> string \<Rightarrow> error + reading" where
  "attr_get self n =
     (case find (\<lambda>p. linkName p = n) (props self) of
        None \<Rightarrow> Inl (AttributeError n)
      | Some p \<Rightarrow> Inr (read_property p))"

section \<open>The base entity constructor\<close>

text \<open>
  The constructors of the source file call the constructor of their base class
  (\<^verbatim>\<open>DataObject.__init__\<close>, \<^verbatim>\<open>Experiment.__init__\<close>), which is in modules that are not
  part of the source file. They take it as a parameter below, and the theorems hold for
  every base constructor. Where a concrete base is needed, it is the one the spec
  describes: it binds the attributes of its own schema, writes every keyword argument
  that matches one of them into that attribute, and raises \<open>UnrecognizedArgument\<close> for a
  keyword argument that matches none.
\<close>

text \<open>
  Modelled from the spec: the base constructor, missing from the source file, binds the
  attributes of its schema (scalar and single-valued here), declared by class \<open>cls\<close>.
\<close>

fun declare_schema :: "string \<Rightarrow> string list \<Rightarrow> entity \<Rightarrow> error + entity" where
  "declare_schema cls [] self = Inr self"
| "declare_schema cls (n # ns) self =
     (case declare_attr n cls Single Scalar self of
        Inl e \<Rightarrow> Inl e
      | Inr self' \<Rightarrow> declare_schema cls ns self')"

text \<open>
  Modelled from the spec: the base constructor, missing from the source file, writes each
  keyword argument into the attribute of its name; a name that matches no attribute is
  an \<open>UnrecognizedArgument\<close>.
\<close>

fun populate :: "kwargs \<Rightarrow> entity \<Rightarrow> error + entity" where
  "populate [] self = Inr self"
| "populate ((k, v) # kvs) self =
     (if k \<in> set (map linkName (props self))
      then (case attr_set self k v of Inl e \<Rightarrow> Inl e | Inr self' \<Rightarrow> populate kvs self')
      else Inl (UnrecognizedArgument k))"

text \<open>
  Modelled from the spec: the constructor of a base entity class \<open>cls\<close> with the given
  schema (\<^verbatim>\<open>DataObject.__init__\<close>, \<^verbatim>\<open>Experiment.__init__\<close>: missing from the source file).
\<close>

definition Entity_init :: "string \<Rightarrow> string list \<Rightarrow> kwargs \<Rightarrow> error + entity" where
  "Entity_init cls schema kwargs =
     (case declare_schema cls schema \<lparr>props = []\<rparr> of
        Inl e \<Rightarrow> Inl e
      | Inr self \<Rightarrow> populate kwargs self)"

section \<open>PatchClampExperiment\<close>

text \<open>The class attribute \<^verbatim>\<open>conditions\<close>, lines 58 to 80.\<close>

definition conditions :: "string list" where
  "conditions =
     [''Ca_concentration'', ''Cl_concentration'', ''blockers'', ''cell'', ''cell_age'',
      ''delta_t'', ''duration'', ''end_time'', ''extra_solution'', ''initial_voltage'',
      ''ion_channel'', ''membrane_capacitance'', ''mutants'', ''patch_type'',
      ''pipette_solution'', ''protocol_end'', ''protocol_start'', ''protocol_step'',
      ''start_time'', ''temperature'', ''type'']"

text \<open>
  Modelled from the spec: \<^verbatim>\<open>slice_dict(d, s)\<close> of the library \<^verbatim>\<open>yarom.utils\<close> (imported,
  not part of the source file): the entries of \<open>d\<close> whose key is in \<open>s\<close>.
\<close>

definition slice_dict :: "kwargs \<Rightarrow> string list \<Rightarrow> kwargs" where
  "slice_dict d s = filter (\<lambda>(k, v). k \<in> set s) d"

text \<open>
  \<^verbatim>\<open>for c in self.conditions: PatchClampExperiment.DatatypeProperty(c, self)\<close>
\<close>

fun declare_conditions :: "string list \<Rightarrow> entity \<Rightarrow> error + entity" where
  "declare_conditions [] self = Inr self"
| "declare_conditions (c # cs) self =
     (case DatatypeProperty ''PatchClampExperiment'' c self False of
        Inl e \<Rightarrow> Inl e
      | Inr self' \<Rightarrow> declare_conditions cs self')"

text \<open>
  \<^verbatim>\<open>for c, v in conditions.items(): getattr(self, c).set(v)\<close>
\<close>

fun set_conditions :: "kwargs \<Rightarrow> entity \<Rightarrow> error + entity" where
  "set_conditions [] self = Inr self"
| "set_conditions ((c, v) # cvs) self =
     (case attr_set self c v of
        Inl e \<Rightarrow> Inl e
      | Inr self' \<Rightarrow> set_conditions cvs self')"

text \<open>
  \<^verbatim>\<open>PatchClampExperiment.__init__(self, reference=False, **kwargs)\<close>, lines 82 to 93. The
  first parameter is the constructor of the base class \<^verbatim>\<open>Experiment\<close>, called through
  \<^verbatim>\<open>super\<close>; an exception it raises ends the construction.
\<close>

definition PatchClampExperiment_init ::
  "(pyval \<Rightarrow> kwargs \<Rightarrow> error + entity) \<Rightarrow> pyval \<Rightarrow> kwargs \<Rightarrow> error + entity" where
  "PatchClampExperiment_init Experiment_init reference kwargs =
     (let conds = slice_dict kwargs conditions;
          kwargs' = filter (\<lambda>(k, v). k \<notin> set (map fst conds)) kwargs
      in case Experiment_init reference kwargs' of
           Inl e \<Rightarrow> Inl e
         | Inr self \<Rightarrow>
             (case declare_conditions conditions self of
                Inl e \<Rightarrow> Inl e
              | Inr self' \<Rightarrow> set_conditions conds self'))"

section \<open>ChannelModel and its specializations\<close>

text \<open>The class \<^verbatim>\<open>ChannelModelType\<close>, lines 96 to 98.\<close>

definition patchClamp :: string where
  "patchClamp = ''Patch clamp experiment''"

definition homologyEstimate :: string where
  "homologyEstimate = ''Estimation based on homology''"

text \<open>
  \<^verbatim>\<open>str.lower\<close>: the letters \<open>A\<close> to \<open>Z\<close> become \<open>a\<close> to \<open>z\<close>. A \<open>string\<close> is a
  list of bytes, and every other byte is kept, as Python 2 does. Python 3 lowers letters
  outside ASCII as well, but the only one it lowers to an ASCII letter is the Kelvin sign
  (to \<open>k\<close>), and neither alias below has a \<open>k\<close>: the comparisons of the constructor
  come out the same.
\<close>

definition lower_char :: "char \<Rightarrow> char" where
  "lower_char c =
     (let n = (of_char c :: nat) in if 65 \<le> n \<and> n \<le> 90 then char_of (n + 32) else c)"

definition lower :: "string \<Rightarrow> string" where
  "lower s = map lower_char s"

text \<open>
  \<^verbatim>\<open>ChannelModel.__init__(self, modelType=False, *args, **kwargs)\<close>, lines 138 to 151.
  The first parameter is the constructor of the base class \<^verbatim>\<open>DataObject\<close>.
\<close>

definition ChannelModel_init ::
  "(pyval list \<Rightarrow> kwargs \<Rightarrow> error + entity) \<Rightarrow> pyval \<Rightarrow> pyval list \<Rightarrow> kwargs \<Rightarrow> error + entity"
  where
  "ChannelModel_init DataObject_init modelType args kwargs =
     (case DataObject_init args kwargs of
        Inl e \<Rightarrow> Inl e
      | Inr self0 \<Rightarrow>
     (case DatatypeProperty ''ChannelModel'' ''modelType'' self0 False of
        Inl e \<Rightarrow> Inl e
      | Inr self1 \<Rightarrow>
     (case DatatypeProperty ''ChannelModel'' ''ion'' self1 True of
        Inl e \<Rightarrow> Inl e
      | Inr self2 \<Rightarrow>
     (case DatatypeProperty ''ChannelModel'' ''gating'' self2 True of
        Inl e \<Rightarrow> Inl e
      | Inr self3 \<Rightarrow>
     (case DatatypeProperty ''ChannelModel'' ''conductance'' self3 False of
        Inl e \<Rightarrow> Inl e
      | Inr self4 \<Rightarrow>
     (case modelType of
        PStr s \<Rightarrow>
          (let m = lower s in
           if m \<in> set [''homology'', homologyEstimate]
           then attr_set self4 ''modelType'' (PStr homologyEstimate)
           else if m \<in> set [''patch-clamp'', patchClamp]
           then attr_set self4 ''modelType'' (PStr patchClamp)
           else Inr self4)
      | _ \<Rightarrow> Inr self4))))))"

text \<open>
  A call \<^verbatim>\<open>ChannelModel(...)\<close> that gives no \<^verbatim>\<open>modelType\<close> binds the default \<^verbatim>\<open>False\<close>.
\<close>

definition ChannelModel_new ::
  "(pyval list \<Rightarrow> kwargs \<Rightarrow> error + entity) \<Rightarrow> pyval option \<Rightarrow> pyval list \<Rightarrow> kwargs \<Rightarrow> error + entity"
  where
  "ChannelModel_new DataObject_init modelType args kwargs =
     ChannelModel_init DataObject_init
       (case modelType of None \<Rightarrow> PBool False | Some v \<Rightarrow> v) args kwargs"

text \<open>
  \<^verbatim>\<open>PatchClampChannelModel.__init__(self, **kwargs)\<close>, lines 154 to 158, and
  \<^verbatim>\<open>HomologyChannelModel.__init__(self, **kwargs)\<close>, lines 161 to 166. The call
  \<^verbatim>\<open>__init__(modelType='patch-clamp', **kwargs)\<close> is a \<open>TypeError\<close> in Python when
  \<^verbatim>\<open>kwargs\<close> holds the key \<^verbatim>\<open>modelType\<close> as well (the keyword would be bound twice). The
  relationship is bound to the instance under the name it is assigned to.
\<close>

definition PatchClampChannelModel_init ::
  "(pyval list \<Rightarrow> kwargs \<Rightarrow> error + entity) \<Rightarrow> kwargs \<Rightarrow> error + entity" where
  "PatchClampChannelModel_init DataObject_init kwargs =
     (if ''modelType'' \<in> set (map fst kwargs) then Inl (TypeError ''modelType'')
      else (case ChannelModel_init DataObject_init (PStr ''patch-clamp'') [] kwargs of
              Inl e \<Rightarrow> Inl e
            | Inr self \<Rightarrow>
                ObjectProperty ''PatchClampChannelModel'' ''modeled_from'' self
                  ''PatchClampExperiment'' False))"

definition HomologyChannelModel_init ::
  "(pyval list \<Rightarrow> kwargs \<Rightarrow> error + entity) \<Rightarrow> kwargs \<Rightarrow> error + entity" where
  "HomologyChannelModel_init DataObject_init kwargs =
     (if ''modelType'' \<in> set (map fst kwargs) then Inl (TypeError ''modelType'')
      else (case ChannelModel_init DataObject_init (PStr ''homology'') [] kwargs of
              Inl e \<Rightarrow> Inl e
            | Inr self \<Rightarrow>
                ObjectProperty ''HomologyChannelModel'' ''homolog'' self ''Channel'' False))"

text \<open>
  The spec's \<^verbatim>\<open>normalize(raw)\<close> has no function of its own in the source: it is what
  \<^verbatim>\<open>ChannelModel(raw, *args, **kwargs).modelType()\<close> reads.
\<close>

definition normalize ::
  "(pyval list \<Rightarrow> kwargs \<Rightarrow> error + entity) \<Rightarrow> pyval \<Rightarrow> pyval list \<Rightarrow> kwargs \<Rightarrow> error + reading"
  where
  "normalize DataObject_init raw args kwargs =
     (case ChannelModel_init DataObject_init raw args kwargs of
        Inl e \<Rightarrow> Inl e
      | Inr cm \<Rightarrow> attr_get cm ''modelType'')"

text \<open>
  The argument of the call \<^verbatim>\<open>self.modelType(...)\<close> that lines 146 to 151 make for a given
  \<^verbatim>\<open>modelType\<close>, if they make one. The constructor is shown below to store exactly this.
\<close>

definition canonical :: "pyval \<Rightarrow> string option" where
  "canonical modelType =
     (case modelType of
        PStr s \<Rightarrow>
          (let m = lower s in
           if m \<in> set [''homology'', homologyEstimate] then Some homologyEstimate
           else if m \<in> set [''patch-clamp'', patchClamp] then Some patchClamp
           else None)
      | _ \<Rightarrow> None)"

text \<open>\<^verbatim>\<open>isinstance(v, str)\<close>\<close>

definition isinstance_str :: "pyval \<Rightarrow> bool" where
  "isinstance_str v = (case v of PStr s \<Rightarrow> True | _ \<Rightarrow> False)"

text \<open>The property object of an attribute, written out.\<close>

abbreviation attribute ::
  "string \<Rightarrow> string \<Rightarrow> cardinality \<Rightarrow> kind \<Rightarrow> pyval list \<Rightarrow> property" where
  "attribute cls n c k vs \<equiv>
     \<lparr>linkName = n, owner_class = cls, card = c, pkind = k, pvalues = vs\<rparr>"

text \<open>
  The attributes declared on an instance, without the values they hold: name, declaring
  class, cardinality and kind of each, in the order of declaration.
\<close>

definition declared :: "entity \<Rightarrow> (string \<times> string \<times> cardinality \<times> kind) list" where
  "declared self = map (\<lambda>p. (linkName p, owner_class p, card p, pkind p)) (props self)"

section \<open>Evaluation of the string operations\<close>

lemma lower_Nil: "lower [] = []"
  by (simp add: lower_def)

lemma lower_Cons: "lower (c # cs) = lower_char c # lower cs"
  by (simp add: lower_def)

section \<open>Declaring and setting attributes\<close>

lemma declare_attr_fresh:
  "n \<notin> set (map linkName (props self)) \<Longrightarrow>
   declare_attr n cls c k self = Inr \<lparr>props = props self @ [attribute cls n c k []]\<rparr>"
  by (simp add: declare_attr_def)

lemma declare_attr_conflict:
  "n \<in> set (map linkName (props self)) \<Longrightarrow>
   declare_attr n cls c k self = Inl (SchemaConflict n)"
  by (simp add: declare_attr_def)

text \<open>Setting and reading an attribute go past the attributes of other names.\<close>

lemma set_in_append_fresh:
  "n \<notin> set (map linkName ps) \<Longrightarrow>
   set_in n v (ps @ qs) =
     (case set_in n v qs of Inl e \<Rightarrow> Inl e | Inr qs' \<Rightarrow> Inr (ps @ qs'))"
  by (induction ps) (auto split: sum.splits)

lemma find_append_fresh:
  "n \<notin> set (map linkName ps) \<Longrightarrow>
   find (\<lambda>p. linkName p = n) (ps @ qs) = find (\<lambda>p. linkName p = n) qs"
  by (induction ps) auto

section \<open>Lower-casing never yields a capital letter\<close>

lemma lower_char_code:
  "(of_char (lower_char c) :: nat) < 65 \<or> 90 < (of_char (lower_char c) :: nat)"
  by (auto simp add: lower_char_def Let_def)

lemma lower_char_not_upper:
  assumes "65 \<le> (of_char d :: nat)" and "(of_char d :: nat) \<le> 90"
  shows "lower_char c \<noteq> d"
  using lower_char_code [of c] assms by auto

lemma lower_not_canonical: "lower s \<noteq> homologyEstimate" "lower s \<noteq> patchClamp"
  by (cases s; simp add: lower_Cons lower_Nil homologyEstimate_def patchClamp_def
      lower_char_not_upper)+

lemma canonical_iff:
  "canonical (PStr s) =
     (if lower s = ''homology'' then Some homologyEstimate
      else if lower s = ''patch-clamp'' then Some patchClamp else None)"
  by (simp add: canonical_def Let_def lower_not_canonical)

section \<open>What the ChannelModel constructor returns\<close>

lemma ChannelModel_init_char:
  "ChannelModel_init D mt args kwargs =
     (case D args kwargs of
        Inl e \<Rightarrow> Inl e
      | Inr self \<Rightarrow>
          (case find (\<lambda>n. n \<in> set (map linkName (props self)))
                  [''modelType'', ''ion'', ''gating'', ''conductance''] of
             Some n \<Rightarrow> Inl (SchemaConflict n)
           | None \<Rightarrow>
               Inr \<lparr>props = props self @
                 [attribute ''ChannelModel'' ''modelType'' Single Scalar
                    (case canonical mt of None \<Rightarrow> [] | Some c \<Rightarrow> [PStr c]),
                  attribute ''ChannelModel'' ''ion'' Multiple Scalar [],
                  attribute ''ChannelModel'' ''gating'' Multiple Scalar [],
                  attribute ''ChannelModel'' ''conductance'' Single Scalar []]\<rparr>))"
proof (cases "D args kwargs")
  case (Inl e)
  then show ?thesis by (simp add: ChannelModel_init_def)
next
  case (Inr self)
  show ?thesis
  proof (cases "find (\<lambda>n. n \<in> set (map linkName (props self)))
                  [''modelType'', ''ion'', ''gating'', ''conductance'']")
    case (Some n)
    then show ?thesis using Inr
      by (auto simp add: ChannelModel_init_def DatatypeProperty_def declare_attr_def
          split: if_splits)
  next
    case None
    then have fresh: "''modelType'' \<notin> set (map linkName (props self))"
      "''ion'' \<notin> set (map linkName (props self))"
      "''gating'' \<notin> set (map linkName (props self))"
      "''conductance'' \<notin> set (map linkName (props self))"
      by (auto split: if_splits)
    show ?thesis using Inr None fresh
      by (cases mt)
        (simp_all add: ChannelModel_init_def DatatypeProperty_def declare_attr_def
          canonical_def Let_def attr_set_def set_in_append_fresh accepts_def store_def)
  qed
qed

lemma ChannelModel_init_Inr:
  assumes "D args kwargs = Inr self"
    and "set (map linkName (props self)) \<inter>
           {''modelType'', ''ion'', ''gating'', ''conductance''} = {}"
  shows "ChannelModel_init D mt args kwargs =
     Inr \<lparr>props = props self @
                 [attribute ''ChannelModel'' ''modelType'' Single Scalar
                    (case canonical mt of None \<Rightarrow> [] | Some c \<Rightarrow> [PStr c]),
                  attribute ''ChannelModel'' ''ion'' Multiple Scalar [],
                  attribute ''ChannelModel'' ''gating'' Multiple Scalar [],
                  attribute ''ChannelModel'' ''conductance'' Single Scalar []]\<rparr>"
  using assms by (simp add: ChannelModel_init_char)

lemma ChannelModel_init_InrD:
  assumes "ChannelModel_init D mt args kwargs = Inr cm"
  shows "\<exists>self. D args kwargs = Inr self \<and>
     set (map linkName (props self)) \<inter>
       {''modelType'', ''ion'', ''gating'', ''conductance''} = {} \<and>
     cm = \<lparr>props = props self @
                 [attribute ''ChannelModel'' ''modelType'' Single Scalar
                    (case canonical mt of None \<Rightarrow> [] | Some c \<Rightarrow> [PStr c]),
                  attribute ''ChannelModel'' ''ion'' Multiple Scalar [],
                  attribute ''ChannelModel'' ''gating'' Multiple Scalar [],
                  attribute ''ChannelModel'' ''conductance'' Single Scalar []]\<rparr>"
  using assms unfolding ChannelModel_init_char
  by (auto split: sum.splits option.splits if_splits)

lemma modelType_read:
  assumes "''modelType'' \<notin> set (map linkName ps)"
  shows "attr_get \<lparr>props = ps @ attribute cls ''modelType'' Single Scalar vs # qs\<rparr>
           ''modelType'' =
         Inr (One (case vs of [] \<Rightarrow> None | v # _ \<Rightarrow> Some v))"
  using assms by (simp add: attr_get_def find_append_fresh read_property_def)

lemma canonical_patch_clamp: "canonical (PStr ''patch-clamp'') = Some patchClamp"
  by (simp add: canonical_iff lower_Cons lower_Nil lower_char_def char_of_eq_iff)

lemma canonical_homology: "canonical (PStr ''homology'') = Some homologyEstimate"
  by (simp add: canonical_iff lower_Cons lower_Nil lower_char_def char_of_eq_iff)

section \<open>What the constructors of the two specializations return\<close>

lemma PatchClampChannelModel_init_char:
  "PatchClampChannelModel_init D kwargs =
     (if ''modelType'' \<in> set (map fst kwargs) then Inl (TypeError ''modelType'')
      else case D [] kwargs of
        Inl e \<Rightarrow> Inl e
      | Inr self \<Rightarrow>
          (case find (\<lambda>n. n \<in> set (map linkName (props self)))
                  [''modelType'', ''ion'', ''gating'', ''conductance'', ''modeled_from''] of
             Some n \<Rightarrow> Inl (SchemaConflict n)
           | None \<Rightarrow>
               Inr \<lparr>props = props self @
                 [attribute ''ChannelModel'' ''modelType'' Single Scalar [PStr patchClamp],
                  attribute ''ChannelModel'' ''ion'' Multiple Scalar [],
                  attribute ''ChannelModel'' ''gating'' Multiple Scalar [],
                  attribute ''ChannelModel'' ''conductance'' Single Scalar [],
                  attribute ''PatchClampChannelModel'' ''modeled_from'' Single
                    (Relationship ''PatchClampExperiment'') []]\<rparr>))"
  by (auto simp add: PatchClampChannelModel_init_def ChannelModel_init_char
      canonical_patch_clamp ObjectProperty_def declare_attr_def
      split: sum.splits option.splits if_splits)

lemma HomologyChannelModel_init_char:
  "HomologyChannelModel_init D kwargs =
     (if ''modelType'' \<in> set (map fst kwargs) then Inl (TypeError ''modelType'')
      else case D [] kwargs of
        Inl e \<Rightarrow> Inl e
      | Inr self \<Rightarrow>
          (case find (\<lambda>n. n \<in> set (map linkName (props self)))
                  [''modelType'', ''ion'', ''gating'', ''conductance'', ''homolog''] of
             Some n \<Rightarrow> Inl (SchemaConflict n)
           | None \<Rightarrow>
               Inr \<lparr>props = props self @
                 [attribute ''ChannelModel'' ''modelType'' Single Scalar
                    [PStr homologyEstimate],
                  attribute ''ChannelModel'' ''ion'' Multiple Scalar [],
                  attribute ''ChannelModel'' ''gating'' Multiple Scalar [],
                  attribute ''ChannelModel'' ''conductance'' Single Scalar [],
                  attribute ''HomologyChannelModel'' ''homolog'' Single
                    (Relationship ''Channel'') []]\<rparr>))"
  by (auto simp add: HomologyChannelModel_init_def ChannelModel_init_char
      canonical_homology ObjectProperty_def declare_attr_def
      split: sum.splits option.splits if_splits)

section \<open>What is read from modelType after construction\<close>

lemma normalize_Inr:
  assumes "D args kwargs = Inr self"
    and "set (map linkName (props self)) \<inter>
           {''modelType'', ''ion'', ''gating'', ''conductance''} = {}"
  shows "normalize D mt args kwargs = Inr (One (map_option PStr (canonical mt)))"
proof -
  from assms(2) have m: "''modelType'' \<notin> set (map linkName (props self))"
    by auto
  show ?thesis
    by (cases "canonical mt")
      (simp_all add: normalize_def ChannelModel_init_Inr [of D args kwargs self mt, OF assms]
        modelType_read [OF m])
qed

lemma lower_eval:
  "lower ''HOMOLOGY'' = ''homology''"
  "lower ''Patch-Clamp'' = ''patch-clamp''"
  "lower ''ligand-gated'' = ''ligand-gated''"
  "lower ''Homology'' = ''homology''"
  "lower ''homology'' = ''homology''"
  "lower ''unknown-value'' = ''unknown-value''"
  "lower '' homology '' = '' homology ''"
  "lower ''patch clamp'' = ''patch clamp''"
  "lower homologyEstimate = ''estimation based on homology''"
  "lower patchClamp = ''patch clamp experiment''"
  by (simp_all add: lower_Cons lower_Nil lower_char_def char_of_eq_iff
      homologyEstimate_def patchClamp_def)

lemma base_empty:
  "(\<lambda>args. Entity_init ''DataObject'' []) [] [] = Inr \<lparr>props = []\<rparr>"
  "set (map linkName (props \<lparr>props = []\<rparr>)) \<inter>
      {''modelType'', ''ion'', ''gating'', ''conductance''} = {}"
  by (simp_all add: Entity_init_def)

section \<open>Claims about ChannelModel\<close>

text \<open>
  C10. A \<^verbatim>\<open>ChannelModel\<close> constructed with a \<^verbatim>\<open>modelType\<close> that is not a string, or with
  none (the default \<^verbatim>\<open>False\<close>), is constructed without error wherever the base constructor
  returns an instance on which the four attribute names are free: \<^verbatim>\<open>modelType\<close> is
  declared, holds no value, and the value given is stored nowhere (the four attributes
  the constructor adds are all empty).
\<close>

theorem ChannelModel_non_string_modelType:
  assumes "\<not> isinstance_str mt"
    and "D args kwargs = Inr self"
    and "set (map linkName (props self)) \<inter>
           {''modelType'', ''ion'', ''gating'', ''conductance''} = {}"
  shows "(\<exists>cm. ChannelModel_init D mt args kwargs = Inr cm \<and>
            props cm = props self @
              [attribute ''ChannelModel'' ''modelType'' Single Scalar [],
               attribute ''ChannelModel'' ''ion'' Multiple Scalar [],
               attribute ''ChannelModel'' ''gating'' Multiple Scalar [],
               attribute ''ChannelModel'' ''conductance'' Single Scalar []] \<and>
            attr_get cm ''modelType'' = Inr (One None)) \<and>
         (\<exists>cm. ChannelModel_new D None args kwargs = Inr cm \<and>
            attr_get cm ''modelType'' = Inr (One None))"
proof -
  from assms(1) have c: "canonical mt = None"
    by (cases mt) (simp_all add: isinstance_str_def canonical_def)
  have d: "canonical (PBool False) = None"
    by (simp add: canonical_def)
  from assms(3) have f: "''modelType'' \<notin> set (map linkName (props self))"
    by auto
  show ?thesis
    using ChannelModel_init_Inr [of D args kwargs self mt, OF assms(2) assms(3)]
      ChannelModel_init_Inr [of D args kwargs self "PBool False", OF assms(2) assms(3)]
      modelType_read [OF f]
    by (simp add: c d ChannelModel_new_def)
qed

theorem ChannelModel_non_string_modelType_witness:
  "\<not> isinstance_str (PInt 7) \<and>
   Entity_init ''DataObject'' [] [] = Inr \<lparr>props = []\<rparr> \<and>
   (\<exists>cm. ChannelModel_init (\<lambda>args. Entity_init ''DataObject'' []) (PInt 7) [] [] = Inr cm \<and>
      attr_get cm ''modelType'' = Inr (One None)) \<and>
   (\<exists>cm. ChannelModel_new (\<lambda>args. Entity_init ''DataObject'' []) None [] [] = Inr cm \<and>
      attr_get cm ''modelType'' = Inr (One None))"
proof -
  have a: "\<not> isinstance_str (PInt 7)"
    by (simp add: isinstance_str_def)
  have b: "(\<lambda>args. Entity_init ''DataObject'' []) [] [] = Inr \<lparr>props = []\<rparr>"
    by (simp add: Entity_init_def)
  have c: "set (map linkName (props \<lparr>props = []\<rparr>)) \<inter>
      {''modelType'', ''ion'', ''gating'', ''conductance''} = {}"
    by simp
  show ?thesis
    using a b ChannelModel_non_string_modelType
      [of "PInt 7" "\<lambda>args. Entity_init ''DataObject'' []" "[]" "[]", OF a b c]
    by blast
qed

text \<open>
  C5. Every \<^verbatim>\<open>PatchClampChannelModel\<close> that is constructed reads the canonical patch-clamp
  value from \<^verbatim>\<open>modelType\<close>. A caller's own \<^verbatim>\<open>modelType\<close> keyword is never accepted: the
  call of the parent constructor would bind the keyword twice, and the construction ends
  with Python's \<open>TypeError\<close>. Without that keyword the construction succeeds wherever the
  base constructor returns an instance on which the five attribute names are free.
\<close>

theorem PatchClampChannelModel_fixes_modelType:
  "(\<forall>cm. PatchClampChannelModel_init D kwargs = Inr cm \<longrightarrow>
      attr_get cm ''modelType'' = Inr (One (Some (PStr patchClamp)))) \<and>
   (''modelType'' \<in> set (map fst kwargs) \<longrightarrow>
      PatchClampChannelModel_init D kwargs = Inl (TypeError ''modelType'')) \<and>
   (\<forall>self. ''modelType'' \<notin> set (map fst kwargs) \<and> D [] kwargs = Inr self \<and>
      set (map linkName (props self)) \<inter>
        {''modelType'', ''ion'', ''gating'', ''conductance'', ''modeled_from''} = {} \<longrightarrow>
      (\<exists>cm. PatchClampChannelModel_init D kwargs = Inr cm))"
  unfolding PatchClampChannelModel_init_char
  by (auto simp add: modelType_read split: sum.splits option.splits if_splits)

theorem PatchClampChannelModel_fixes_modelType_witness:
  "(\<exists>cm. PatchClampChannelModel_init (\<lambda>args. Entity_init ''DataObject'' []) [] = Inr cm \<and>
      attr_get cm ''modelType'' = Inr (One (Some (PStr patchClamp)))) \<and>
   ''modelType'' \<in> set (map fst [(''modelType'', PStr ''homology'')]) \<and>
   PatchClampChannelModel_init (\<lambda>args. Entity_init ''DataObject'' [])
     [(''modelType'', PStr ''homology'')] = Inl (TypeError ''modelType'')"
proof -
  let ?D = "\<lambda>args :: pyval list. Entity_init ''DataObject'' []"
  have a: "''modelType'' \<notin> set (map fst ([] :: kwargs)) \<and> ?D [] [] = Inr \<lparr>props = []\<rparr> \<and>
      set (map linkName (props \<lparr>props = []\<rparr>)) \<inter>
        {''modelType'', ''ion'', ''gating'', ''conductance'', ''modeled_from''} = {}"
    by (simp add: Entity_init_def)
  have b: "''modelType'' \<in> set (map fst [(''modelType'', PStr ''homology'')])"
    by simp
  show ?thesis
    using a b PatchClampChannelModel_fixes_modelType [of ?D "[]"]
      PatchClampChannelModel_fixes_modelType [of ?D "[(''modelType'', PStr ''homology'')]"]
    by blast
qed

text \<open>
  C7. Each of the two specializations of \<^verbatim>\<open>ChannelModel\<close> calls the parent constructor
  with one fixed \<^verbatim>\<open>modelType\<close> alias, so that \<^verbatim>\<open>modelType\<close> reads the matching canonical
  value, and adds exactly one attribute to the parent's: \<^verbatim>\<open>PatchClampChannelModel\<close> the
  single-valued relationship \<^verbatim>\<open>modeled_from\<close> to \<^verbatim>\<open>PatchClampExperiment\<close>,
  \<^verbatim>\<open>HomologyChannelModel\<close> the single-valued relationship \<^verbatim>\<open>homolog\<close> to \<^verbatim>\<open>Channel\<close>.
\<close>

theorem specializations_add_one_relationship:
  "(\<forall>cm. PatchClampChannelModel_init D kwargs = Inr cm \<longrightarrow>
      (\<exists>parent. ChannelModel_init D (PStr ''patch-clamp'') [] kwargs = Inr parent \<and>
         props cm = props parent @
           [attribute ''PatchClampChannelModel'' ''modeled_from'' Single
              (Relationship ''PatchClampExperiment'') []] \<and>
         attr_get cm ''modelType'' = Inr (One (Some (PStr patchClamp))))) \<and>
   (\<forall>cm. HomologyChannelModel_init D kwargs = Inr cm \<longrightarrow>
      (\<exists>parent. ChannelModel_init D (PStr ''homology'') [] kwargs = Inr parent \<and>
         props cm = props parent @
           [attribute ''HomologyChannelModel'' ''homolog'' Single
              (Relationship ''Channel'') []] \<and>
         attr_get cm ''modelType'' = Inr (One (Some (PStr homologyEstimate)))))"
proof (intro conjI allI impI)
  fix cm
  assume a: "PatchClampChannelModel_init D kwargs = Inr cm"
  then obtain parent where
    p: "ChannelModel_init D (PStr ''patch-clamp'') [] kwargs = Inr parent" and
    c: "props cm = props parent @
           [attribute ''PatchClampChannelModel'' ''modeled_from'' Single
              (Relationship ''PatchClampExperiment'') []]"
    by (auto simp add: PatchClampChannelModel_init_def ObjectProperty_def declare_attr_def
        split: if_splits sum.splits)
  from ChannelModel_init_InrD [OF p] obtain self :: entity where
    f: "set (map linkName (props self)) \<inter>
       {''modelType'', ''ion'', ''gating'', ''conductance''} = {}" and
    q: "props parent = props self @
                 [attribute ''ChannelModel'' ''modelType'' Single Scalar [PStr patchClamp],
                  attribute ''ChannelModel'' ''ion'' Multiple Scalar [],
                  attribute ''ChannelModel'' ''gating'' Multiple Scalar [],
                  attribute ''ChannelModel'' ''conductance'' Single Scalar []]"
    by (auto simp add: canonical_patch_clamp)
  from f have m: "''modelType'' \<notin> set (map linkName (props self))"
    by auto
  have "attr_get cm ''modelType'' = Inr (One (Some (PStr patchClamp)))"
    by (simp add: attr_get_def c q find_append_fresh [OF m] read_property_def)
  with p c show "\<exists>parent. ChannelModel_init D (PStr ''patch-clamp'') [] kwargs = Inr parent \<and>
         props cm = props parent @
           [attribute ''PatchClampChannelModel'' ''modeled_from'' Single
              (Relationship ''PatchClampExperiment'') []] \<and>
         attr_get cm ''modelType'' = Inr (One (Some (PStr patchClamp)))"
    by simp
next
  fix cm
  assume a: "HomologyChannelModel_init D kwargs = Inr cm"
  then obtain parent where
    p: "ChannelModel_init D (PStr ''homology'') [] kwargs = Inr parent" and
    c: "props cm = props parent @
           [attribute ''HomologyChannelModel'' ''homolog'' Single
              (Relationship ''Channel'') []]"
    by (auto simp add: HomologyChannelModel_init_def ObjectProperty_def declare_attr_def
        split: if_splits sum.splits)
  from ChannelModel_init_InrD [OF p] obtain self :: entity where
    f: "set (map linkName (props self)) \<inter>
       {''modelType'', ''ion'', ''gating'', ''conductance''} = {}" and
    q: "props parent = props self @
                 [attribute ''ChannelModel'' ''modelType'' Single Scalar
                    [PStr homologyEstimate],
                  attribute ''ChannelModel'' ''ion'' Multiple Scalar [],
                  attribute ''ChannelModel'' ''gating'' Multiple Scalar [],
                  attribute ''ChannelModel'' ''conductance'' Single Scalar []]"
    by (auto simp add: canonical_homology)
  from f have m: "''modelType'' \<notin> set (map linkName (props self))"
    by auto
  have "attr_get cm ''modelType'' = Inr (One (Some (PStr homologyEstimate)))"
    by (simp add: attr_get_def c q find_append_fresh [OF m] read_property_def)
  with p c show "\<exists>parent. ChannelModel_init D (PStr ''homology'') [] kwargs = Inr parent \<and>
         props cm = props parent @
           [attribute ''HomologyChannelModel'' ''homolog'' Single
              (Relationship ''Channel'') []] \<and>
         attr_get cm ''modelType'' = Inr (One (Some (PStr homologyEstimate)))"
    by simp
qed

theorem specializations_add_one_relationship_witness:
  "(\<exists>cm parent. PatchClampChannelModel_init (\<lambda>args. Entity_init ''DataObject'' []) [] = Inr cm \<and>
      ChannelModel_init (\<lambda>args. Entity_init ''DataObject'' []) (PStr ''patch-clamp'') [] []
        = Inr parent \<and>
      props cm = props parent @
           [attribute ''PatchClampChannelModel'' ''modeled_from'' Single
              (Relationship ''PatchClampExperiment'') []]) \<and>
   (\<exists>cm parent. HomologyChannelModel_init (\<lambda>args. Entity_init ''DataObject'' []) [] = Inr cm \<and>
      ChannelModel_init (\<lambda>args. Entity_init ''DataObject'' []) (PStr ''homology'') [] []
        = Inr parent \<and>
      props cm = props parent @
           [attribute ''HomologyChannelModel'' ''homolog'' Single
              (Relationship ''Channel'') []])"
proof -
  let ?D = "\<lambda>args :: pyval list. Entity_init ''DataObject'' []"
  have a: "\<exists>cm. PatchClampChannelModel_init ?D [] = Inr cm"
    by (simp add: PatchClampChannelModel_init_char Entity_init_def)
  have b: "\<exists>cm. HomologyChannelModel_init ?D [] = Inr cm"
    by (simp add: HomologyChannelModel_init_char Entity_init_def)
  show ?thesis
    using a b specializations_add_one_relationship [of ?D "[]"]
    by blast
qed

text \<open>
  C8. On a \<^verbatim>\<open>ChannelModel\<close> as its constructor returns it, setting \<^verbatim>\<open>ion\<close> twice
  succeeds both times, and reading \<^verbatim>\<open>ion\<close> afterwards returns the sequence of the two
  values in the order they were set: the second does not overwrite the first. (The
  source declares \<^verbatim>\<open>ion\<close> with \<^verbatim>\<open>multiple=True\<close>; the accessor is the one modelled from
  the spec.)
\<close>

theorem ion_accumulates:
  assumes "ChannelModel_init D mt args kwargs = Inr cm"
  shows "\<exists>cm1 cm2. attr_set cm ''ion'' v1 = Inr cm1 \<and> attr_set cm1 ''ion'' v2 = Inr cm2 \<and>
           attr_get cm2 ''ion'' = Inr (Many [v1, v2])"
proof -
  from ChannelModel_init_InrD [OF assms] obtain self :: entity where
    f: "set (map linkName (props self)) \<inter>
       {''modelType'', ''ion'', ''gating'', ''conductance''} = {}"
    and cm: "cm = \<lparr>props = props self @
                 [attribute ''ChannelModel'' ''modelType'' Single Scalar
                    (case canonical mt of None \<Rightarrow> [] | Some c \<Rightarrow> [PStr c]),
                  attribute ''ChannelModel'' ''ion'' Multiple Scalar [],
                  attribute ''ChannelModel'' ''gating'' Multiple Scalar [],
                  attribute ''ChannelModel'' ''conductance'' Single Scalar []]\<rparr>"
    by blast
  from f have i: "''ion'' \<notin> set (map linkName (props self))"
    by auto
  show ?thesis
    by (simp add: cm attr_set_def attr_get_def set_in_append_fresh [OF i]
        find_append_fresh [OF i] accepts_def store_def read_property_def)
qed

theorem ion_accumulates_witness:
  "\<exists>cm cm1 cm2.
     ChannelModel_init (\<lambda>args. Entity_init ''DataObject'' []) (PBool False) [] [] = Inr cm \<and>
     attr_set cm ''ion'' (PStr ''Ca'') = Inr cm1 \<and> attr_set cm1 ''ion'' (PStr ''K'') = Inr cm2 \<and>
     attr_get cm2 ''ion'' = Inr (Many [PStr ''Ca'', PStr ''K''])"
proof -
  let ?D = "\<lambda>args :: pyval list. Entity_init ''DataObject'' []"
  have "\<exists>cm. ChannelModel_init ?D (PBool False) [] [] = Inr cm"
    by (simp add: ChannelModel_init_char Entity_init_def)
  then obtain cm where a: "ChannelModel_init ?D (PBool False) [] [] = Inr cm" ..
  from ion_accumulates [OF a, of "PStr ''Ca''" "PStr ''K''"] a show ?thesis
    by blast
qed

text \<open>
  C3, as the code has it. The constructor lower-cases a string \<^verbatim>\<open>modelType\<close> and does
  nothing else to it (no trimming, no hyphen or space variants). If the lower-cased
  string is the alias \<^verbatim>\<open>homology\<close> or \<^verbatim>\<open>patch-clamp\<close>, \<^verbatim>\<open>modelType\<close> reads the matching
  canonical value. A string that is neither alias in lower case, and is not itself one of
  the two canonical values, leaves \<^verbatim>\<open>modelType\<close> without a value: it is not stored, and no
  error is raised.
\<close>

theorem modelType_normalization:
  assumes "D args kwargs = Inr self"
    and "set (map linkName (props self)) \<inter>
           {''modelType'', ''ion'', ''gating'', ''conductance''} = {}"
  shows "(lower s = ''homology'' \<longrightarrow>
            normalize D (PStr s) args kwargs = Inr (One (Some (PStr homologyEstimate)))) \<and>
         (lower s = ''patch-clamp'' \<longrightarrow>
            normalize D (PStr s) args kwargs = Inr (One (Some (PStr patchClamp)))) \<and>
         (lower s \<noteq> ''homology'' \<and> lower s \<noteq> ''patch-clamp'' \<and>
          s \<noteq> homologyEstimate \<and> s \<noteq> patchClamp \<longrightarrow>
            normalize D (PStr s) args kwargs = Inr (One None))"
  by (simp add: normalize_Inr [of D args kwargs self, OF assms] canonical_iff)

theorem modelType_normalization_witness:
  "Entity_init ''DataObject'' [] [] = Inr \<lparr>props = []\<rparr> \<and>
   lower ''HOMOLOGY'' = ''homology'' \<and>
   normalize (\<lambda>args. Entity_init ''DataObject'' []) (PStr ''HOMOLOGY'') [] [] =
     Inr (One (Some (PStr homologyEstimate))) \<and>
   lower ''Patch-Clamp'' = ''patch-clamp'' \<and>
   normalize (\<lambda>args. Entity_init ''DataObject'' []) (PStr ''Patch-Clamp'') [] [] =
     Inr (One (Some (PStr patchClamp))) \<and>
   lower ''ligand-gated'' \<noteq> ''homology'' \<and> lower ''ligand-gated'' \<noteq> ''patch-clamp'' \<and>
   ''ligand-gated'' \<noteq> homologyEstimate \<and> ''ligand-gated'' \<noteq> patchClamp \<and>
   normalize (\<lambda>args. Entity_init ''DataObject'' []) (PStr ''ligand-gated'') [] [] =
     Inr (One None)"
proof -
  let ?D = "\<lambda>args :: pyval list. Entity_init ''DataObject'' []"
  note t = modelType_normalization [of ?D "[]" "[]" "\<lparr>props = []\<rparr>", OF base_empty]
  have n: "''ligand-gated'' \<noteq> homologyEstimate" "''ligand-gated'' \<noteq> patchClamp"
    by (simp_all add: homologyEstimate_def patchClamp_def)
  show ?thesis
    using t [of "''HOMOLOGY''"] t [of "''Patch-Clamp''"] t [of "''ligand-gated''"] n
    by (simp add: lower_eval base_empty)
qed

text \<open>
  The normalization as the spec words it fails on the code: surrounding blanks are not
  trimmed, a blank is not taken for the hyphen of the alias, an unrecognized string is
  not stored, and a canonical value given as input is not passed through. In each case
  \<^verbatim>\<open>modelType\<close> reads no value.
\<close>

theorem modelType_normalization_counterexample:
  "normalize (\<lambda>args. Entity_init ''DataObject'' []) (PStr '' homology '') [] [] =
     Inr (One None) \<and>
   normalize (\<lambda>args. Entity_init ''DataObject'' []) (PStr ''patch clamp'') [] [] =
     Inr (One None) \<and>
   normalize (\<lambda>args. Entity_init ''DataObject'' []) (PStr ''ligand-gated'') [] [] =
     Inr (One None) \<and>
   normalize (\<lambda>args. Entity_init ''DataObject'' []) (PStr patchClamp) [] [] =
     Inr (One None)"
  by (simp add: normalize_Inr [of "\<lambda>args. Entity_init ''DataObject'' []" "[]" "[]"
        "\<lparr>props = []\<rparr>", OF base_empty] canonical_iff lower_eval)

text \<open>
  C4, as the code has it. Normalizing \<^verbatim>\<open>homology\<close> and \<^verbatim>\<open>Homology\<close> both read the canonical
  homology-estimate value; normalizing the unrecognized \<^verbatim>\<open>unknown-value\<close> raises no error
  and reads no value.
\<close>

theorem normalize_examples:
  assumes "D args kwargs = Inr self"
    and "set (map linkName (props self)) \<inter>
           {''modelType'', ''ion'', ''gating'', ''conductance''} = {}"
  shows "normalize D (PStr ''homology'') args kwargs =
           Inr (One (Some (PStr homologyEstimate))) \<and>
         normalize D (PStr ''Homology'') args kwargs =
           Inr (One (Some (PStr homologyEstimate))) \<and>
         normalize D (PStr ''unknown-value'') args kwargs = Inr (One None)"
  by (simp add: normalize_Inr [of D args kwargs self, OF assms] canonical_iff lower_eval)

theorem normalize_examples_witness:
  "Entity_init ''DataObject'' [] [] = Inr \<lparr>props = []\<rparr> \<and>
   normalize (\<lambda>args. Entity_init ''DataObject'' []) (PStr ''homology'') [] [] =
     Inr (One (Some (PStr homologyEstimate))) \<and>
   normalize (\<lambda>args. Entity_init ''DataObject'' []) (PStr ''Homology'') [] [] =
     Inr (One (Some (PStr homologyEstimate))) \<and>
   normalize (\<lambda>args. Entity_init ''DataObject'' []) (PStr ''unknown-value'') [] [] =
     Inr (One None)"
  using normalize_examples [of "\<lambda>args. Entity_init ''DataObject'' []" "[]" "[]"
      "\<lparr>props = []\<rparr>", OF base_empty]
  by (simp add: base_empty)

text \<open>
  The string \<^verbatim>\<open>unknown-value\<close> is not passed through, and the canonical homology-estimate
  value is not a fixed point: after either, \<^verbatim>\<open>modelType\<close> reads no value.
\<close>

theorem normalize_examples_counterexample:
  "normalize (\<lambda>args. Entity_init ''DataObject'' []) (PStr ''unknown-value'') [] [] =
     Inr (One None) \<and>
   normalize (\<lambda>args. Entity_init ''DataObject'' []) (PStr homologyEstimate) [] [] =
     Inr (One None)"
  by (simp add: normalize_Inr [of "\<lambda>args. Entity_init ''DataObject'' []" "[]" "[]"
        "\<lparr>props = []\<rparr>", OF base_empty] canonical_iff lower_eval)

section \<open>What the PatchClampExperiment constructor returns\<close>

lemma distinct_conditions: "distinct conditions"
  by (simp add: conditions_def)

lemma length_conditions: "length conditions = 21"
  by (simp add: conditions_def)

lemma forwarded_eq:
  "filter (\<lambda>(k, v). k \<notin> set (map fst (slice_dict kwargs cs))) kwargs =
   filter (\<lambda>(k, v). k \<notin> set cs) kwargs"
  by (rule filter_cong) (auto simp add: slice_dict_def image_iff)

lemma declare_conditions_char:
  "distinct cs \<Longrightarrow>
   declare_conditions cs self =
     (case find (\<lambda>c. c \<in> set (map linkName (props self))) cs of
        Some c \<Rightarrow> Inl (SchemaConflict c)
      | None \<Rightarrow>
          Inr \<lparr>props = props self @
            map (\<lambda>c. attribute ''PatchClampExperiment'' c Single Scalar []) cs\<rparr>)"
proof (induction cs arbitrary: self)
  case Nil
  then show ?case by simp
next
  case (Cons c cs)
  show ?case
  proof (cases "c \<in> set (map linkName (props self))")
    case True
    then show ?thesis
      by (simp add: DatatypeProperty_def declare_attr_conflict)
  next
    case False
    let ?self' = "\<lparr>props = props self @
        [attribute ''PatchClampExperiment'' c Single Scalar []]\<rparr>"
    from Cons.prems have c: "c \<notin> set cs" and d: "distinct cs"
      by simp_all
    have f: "find (\<lambda>d. d \<in> set (map linkName (props ?self'))) cs =
             find (\<lambda>d. d \<in> set (map linkName (props self))) cs"
      using c by (intro find_cong) auto
    from False have "declare_conditions (c # cs) self = declare_conditions cs ?self'"
      by (simp add: DatatypeProperty_def declare_attr_fresh)
    also have "\<dots> = (case find (\<lambda>d. d \<in> set (map linkName (props self))) cs of
        Some c \<Rightarrow> Inl (SchemaConflict c)
      | None \<Rightarrow>
          Inr \<lparr>props = props self @
            map (\<lambda>c. attribute ''PatchClampExperiment'' c Single Scalar []) (c # cs)\<rparr>)"
      unfolding Cons.IH [OF d, of ?self'] f by (simp split: option.splits)
    finally show ?thesis using False by simp
  qed
qed

lemma set_in_conditions:
  "distinct cs \<Longrightarrow> k \<in> set cs \<Longrightarrow>
   set_in k v (map (\<lambda>c. attribute P c Single Scalar (f c)) cs) =
     Inr (map (\<lambda>c. attribute P c Single Scalar ((f(k := [v])) c)) cs)"
proof (induction cs)
  case Nil
  then show ?case by simp
next
  case (Cons c cs)
  show ?case
  proof (cases "c = k")
    case True
    with Cons.prems have "k \<notin> set cs" by simp
    then have "map (\<lambda>c. attribute P c Single Scalar ((f(k := [v])) c)) cs =
               map (\<lambda>c. attribute P c Single Scalar (f c)) cs"
      by (intro map_cong) auto
    with True show ?thesis
      by (simp add: accepts_def store_def)
  next
    case False
    with Cons show ?thesis by simp
  qed
qed

lemma set_conditions_char:
  "distinct cs \<Longrightarrow> set (map fst kvs) \<subseteq> set cs \<Longrightarrow>
   set cs \<inter> set (map linkName ps) = {} \<Longrightarrow>
   set_conditions kvs \<lparr>props = ps @ map (\<lambda>c. attribute P c Single Scalar (f c)) cs\<rparr> =
     Inr \<lparr>props = ps @
       map (\<lambda>c. attribute P c Single Scalar (fold (\<lambda>(k, v) g. g(k := [v])) kvs f c)) cs\<rparr>"
proof (induction kvs arbitrary: f)
  case Nil
  then show ?case by simp
next
  case (Cons kv kvs)
  obtain k v where kv: "kv = (k, v)" by (cases kv)
  from Cons.prems kv have k: "k \<in> set cs" and rest: "set (map fst kvs) \<subseteq> set cs"
    by simp_all
  from k Cons.prems(3) have fresh: "k \<notin> set (map linkName ps)"
    by auto
  have "attr_set \<lparr>props = ps @ map (\<lambda>c. attribute P c Single Scalar (f c)) cs\<rparr> k v =
      Inr \<lparr>props = ps @ map (\<lambda>c. attribute P c Single Scalar ((f(k := [v])) c)) cs\<rparr>"
    by (simp add: attr_set_def set_in_append_fresh [OF fresh]
        set_in_conditions [OF Cons.prems(1) k])
  then show ?case
    using Cons.IH [OF Cons.prems(1) rest Cons.prems(3), of "f(k := [v])"] kv
    by simp
qed

lemma fold_values:
  "distinct (map fst kvs) \<Longrightarrow>
   fold (\<lambda>(k, v) g. g(k := [v])) kvs f c =
     (case map_of kvs c of None \<Rightarrow> f c | Some v \<Rightarrow> [v])"
proof (induction kvs arbitrary: f)
  case Nil
  then show ?case by simp
next
  case (Cons kv kvs)
  obtain k v where kv: "kv = (k, v)" by (cases kv)
  from Cons.prems kv have k: "k \<notin> fst ` set kvs" and d: "distinct (map fst kvs)"
    by simp_all
  from k have n: "map_of kvs k = None"
    by (simp add: map_of_eq_None_iff)
  show ?case
    using Cons.IH [OF d, of "f(k := [v])"] kv n
    by (auto split: option.splits)
qed

lemma map_of_slice:
  "c \<in> set cs \<Longrightarrow> map_of (slice_dict kwargs cs) c = map_of kwargs c"
  by (induction kwargs) (auto simp add: slice_dict_def)

lemma distinct_slice:
  "distinct (map fst kwargs) \<Longrightarrow> distinct (map fst (slice_dict kwargs cs))"
  by (simp add: slice_dict_def distinct_map_filter)

lemma PatchClampExperiment_init_fold:
  "PatchClampExperiment_init E r kwargs =
     (case E r (filter (\<lambda>(k, v). k \<notin> set conditions) kwargs) of
        Inl e \<Rightarrow> Inl e
      | Inr self \<Rightarrow>
          (case find (\<lambda>c. c \<in> set (map linkName (props self))) conditions of
             Some c \<Rightarrow> Inl (SchemaConflict c)
           | None \<Rightarrow>
               Inr \<lparr>props = props self @
                 map (\<lambda>c. attribute ''PatchClampExperiment'' c Single Scalar
                        (fold (\<lambda>(k, v) g. g(k := [v])) (slice_dict kwargs conditions)
                           (\<lambda>c. []) c))
                   conditions\<rparr>))"
proof (cases "E r (filter (\<lambda>(k, v). k \<notin> set conditions) kwargs)")
  case (Inl e)
  then show ?thesis
    unfolding PatchClampExperiment_init_def Let_def forwarded_eq by simp
next
  case (Inr self)
  show ?thesis
  proof (cases "find (\<lambda>c. c \<in> set (map linkName (props self))) conditions")
    case (Some c)
    with Inr show ?thesis
      unfolding PatchClampExperiment_init_def Let_def forwarded_eq
      by (simp add: declare_conditions_char [OF distinct_conditions])
  next
    case None
    then have fresh: "set conditions \<inter> set (map linkName (props self)) = {}"
      by (auto simp add: find_None_iff)
    have keys: "set (map fst (slice_dict kwargs conditions)) \<subseteq> set conditions"
      by (auto simp add: slice_dict_def)
    from Inr None show ?thesis
      unfolding PatchClampExperiment_init_def Let_def forwarded_eq
      by (simp add: declare_conditions_char [OF distinct_conditions]
          set_conditions_char [OF distinct_conditions keys fresh, of _ "\<lambda>c. []"])
  qed
qed

lemma PatchClampExperiment_init_char:
  assumes "distinct (map fst kwargs)"
  shows "PatchClampExperiment_init E r kwargs =
     (case E r (filter (\<lambda>(k, v). k \<notin> set conditions) kwargs) of
        Inl e \<Rightarrow> Inl e
      | Inr self \<Rightarrow>
          (case find (\<lambda>c. c \<in> set (map linkName (props self))) conditions of
             Some c \<Rightarrow> Inl (SchemaConflict c)
           | None \<Rightarrow>
               Inr \<lparr>props = props self @
                 map (\<lambda>c. attribute ''PatchClampExperiment'' c Single Scalar
                        (case map_of kwargs c of None \<Rightarrow> [] | Some v \<Rightarrow> [v]))
                   conditions\<rparr>))"
proof -
  have eq: "map (\<lambda>c. attribute ''PatchClampExperiment'' c Single Scalar
          (fold (\<lambda>(k, v) g. g(k := [v])) (slice_dict kwargs conditions) (\<lambda>c. []) c))
          conditions =
        map (\<lambda>c. attribute ''PatchClampExperiment'' c Single Scalar
          (case map_of kwargs c of None \<Rightarrow> [] | Some v \<Rightarrow> [v])) conditions"
    by (intro map_cong)
      (simp_all add: fold_values [OF distinct_slice [OF assms]] map_of_slice)
  show ?thesis
    unfolding PatchClampExperiment_init_fold eq by (rule refl)
qed

lemma find_append_none:
  "find Q qs = None \<Longrightarrow> find Q (ps @ qs) = find Q ps"
  by (induction ps) auto

lemma condition_read:
  assumes "c \<in> set cs" and "c \<notin> set (map linkName ps)"
  shows "attr_get \<lparr>props = ps @ map (\<lambda>c. attribute P c Single Scalar (g c)) cs\<rparr> c =
     Inr (One (case g c of [] \<Rightarrow> None | v # _ \<Rightarrow> Some v))"
proof -
  from assms(1) have "find (\<lambda>p. linkName p = c) (map (\<lambda>c. attribute P c Single Scalar (g c)) cs) =
      Some (attribute P c Single Scalar (g c))"
    by (induction cs) auto
  then show ?thesis
    by (simp add: attr_get_def find_append_fresh [OF assms(2)] read_property_def)
qed

text \<open>The example of the spec: two conditions and one other keyword argument.\<close>

lemma example_kwargs:
  "distinct (map fst [(''temperature'', PInt 20), (''cell'', PStr ''ADAL''), (''foo'', PInt 1)])"
  "filter (\<lambda>(k, v). k \<notin> set conditions)
     [(''temperature'', PInt 20), (''cell'', PStr ''ADAL''), (''foo'', PInt 1)] =
   [(''foo'', PInt 1)]"
  "''temperature'' \<in> set conditions"
  "''cell'' \<in> set conditions"
  by (simp_all add: conditions_def)

lemma example_bases:
  "Entity_init ''Experiment'' [] [(''foo'', PInt 1)] = Inl (UnrecognizedArgument ''foo'')"
  "Entity_init ''Experiment'' [''foo''] [(''foo'', PInt 1)] =
     Inr \<lparr>props = [attribute ''Experiment'' ''foo'' Single Scalar [PInt 1]]\<rparr>"
  "set conditions \<inter>
     set (map linkName (props \<lparr>props = [attribute ''Experiment'' ''foo'' Single Scalar [PInt 1]]\<rparr>))
   = {}"
  by (simp_all add: Entity_init_def declare_attr_def attr_set_def accepts_def store_def
      conditions_def)

text \<open>Base classes that already declare a name the derived constructor declares.\<close>

lemma conflicting_bases:
  "Entity_init ''Experiment'' [''type''] [] =
     Inr \<lparr>props = [attribute ''Experiment'' ''type'' Single Scalar []]\<rparr>"
  "Entity_init ''DataObject'' [''ion''] [] =
     Inr \<lparr>props = [attribute ''DataObject'' ''ion'' Single Scalar []]\<rparr>"
  "find (\<lambda>c. c \<in> set (map linkName
       (props \<lparr>props = [attribute ''Experiment'' ''type'' Single Scalar []]\<rparr>))) conditions =
     Some ''type''"
  "find (\<lambda>n. n \<in> set (map linkName
       (props \<lparr>props = [attribute ''DataObject'' ''ion'' Single Scalar []]\<rparr>)))
     [''modelType'', ''ion'', ''gating'', ''conductance''] = Some ''ion''"
  "filter (\<lambda>(k, v). k \<notin> set conditions) ([] :: kwargs) = []"
  by (simp_all add: Entity_init_def declare_attr_def conditions_def)

section \<open>Claims about PatchClampExperiment\<close>

text \<open>
  C1. The constructor splits its keyword arguments by membership in \<^verbatim>\<open>conditions\<close>. The
  arguments whose name is not in the list are what the base constructor is called with,
  unchanged and in their order; an error the base constructor raises for them (such as
  \<open>UnrecognizedArgument\<close>) is the result of the construction. On every instance that
  is constructed, each argument whose name is in the list is the value read from the
  attribute of that name, and the attributes of other names read as the base constructor
  left them. The construction succeeds wherever the base constructor returns an instance
  on which no condition name is declared yet.
\<close>

theorem PatchClampExperiment_partitions_kwargs:
  assumes "distinct (map fst kwargs)"
  shows "(\<forall>e. E r (filter (\<lambda>(k, v). k \<notin> set conditions) kwargs) = Inl e \<longrightarrow>
            PatchClampExperiment_init E r kwargs = Inl e) \<and>
         (\<forall>inst. PatchClampExperiment_init E r kwargs = Inr inst \<longrightarrow>
            (\<exists>self. E r (filter (\<lambda>(k, v). k \<notin> set conditions) kwargs) = Inr self \<and>
               (\<forall>k. k \<notin> set conditions \<longrightarrow> attr_get inst k = attr_get self k)) \<and>
            (\<forall>(k, v) \<in> set kwargs. k \<in> set conditions \<longrightarrow>
               attr_get inst k = Inr (One (Some v)))) \<and>
         (\<forall>self. E r (filter (\<lambda>(k, v). k \<notin> set conditions) kwargs) = Inr self \<and>
            set conditions \<inter> set (map linkName (props self)) = {} \<longrightarrow>
            (\<exists>inst. PatchClampExperiment_init E r kwargs = Inr inst))"
proof (intro conjI allI impI)
  fix e
  assume "E r (filter (\<lambda>(k, v). k \<notin> set conditions) kwargs) = Inl e"
  then show "PatchClampExperiment_init E r kwargs = Inl e"
    by (simp add: PatchClampExperiment_init_fold)
next
  fix inst
  assume a: "PatchClampExperiment_init E r kwargs = Inr inst"
  then obtain self :: entity where
    b: "E r (filter (\<lambda>(k, v). k \<notin> set conditions) kwargs) = Inr self" and
    f: "find (\<lambda>c. c \<in> set (map linkName (props self))) conditions = None" and
    i: "inst = \<lparr>props = props self @
                 map (\<lambda>c. attribute ''PatchClampExperiment'' c Single Scalar
                        (case map_of kwargs c of None \<Rightarrow> [] | Some v \<Rightarrow> [v]))
                   conditions\<rparr>"
    unfolding PatchClampExperiment_init_char [OF assms]
    by (auto split: sum.splits option.splits)
  have "\<forall>k. k \<notin> set conditions \<longrightarrow> attr_get inst k = attr_get self k"
  proof (intro allI impI)
    fix k
    assume "k \<notin> set conditions"
    then have "find (\<lambda>p. linkName p = k)
        (map (\<lambda>c. attribute ''PatchClampExperiment'' c Single Scalar
                        (case map_of kwargs c of None \<Rightarrow> [] | Some v \<Rightarrow> [v]))
                   conditions) = None"
      by (auto simp add: find_None_iff)
    then show "attr_get inst k = attr_get self k"
      by (simp add: attr_get_def i find_append_none)
  qed
  with b show "\<exists>self. E r (filter (\<lambda>(k, v). k \<notin> set conditions) kwargs) = Inr self \<and>
               (\<forall>k. k \<notin> set conditions \<longrightarrow> attr_get inst k = attr_get self k)"
    by blast
  show "\<forall>(k, v) \<in> set kwargs. k \<in> set conditions \<longrightarrow>
               attr_get inst k = Inr (One (Some v))"
  proof (intro ballI, clarify)
    fix k v
    assume kv: "(k, v) \<in> set kwargs" and k: "k \<in> set conditions"
    from f k have n: "k \<notin> set (map linkName (props self))"
      by (auto simp add: find_None_iff)
    from kv assms have "map_of kwargs k = Some v"
      by simp
    then show "attr_get inst k = Inr (One (Some v))"
      by (simp add: i condition_read [OF k n])
  qed
next
  fix self
  assume "E r (filter (\<lambda>(k, v). k \<notin> set conditions) kwargs) = Inr self \<and>
            set conditions \<inter> set (map linkName (props self)) = {}"
  then have b: "E r (filter (\<lambda>(k, v). k \<notin> set conditions) kwargs) = Inr self" and
    "find (\<lambda>c. c \<in> set (map linkName (props self))) conditions = None"
    by (auto simp add: find_None_iff)
  then show "\<exists>inst. PatchClampExperiment_init E r kwargs = Inr inst"
    by (simp add: PatchClampExperiment_init_fold)
qed

theorem PatchClampExperiment_partitions_kwargs_witness:
  "distinct (map fst [(''temperature'', PInt 20), (''cell'', PStr ''ADAL''), (''foo'', PInt 1)]) \<and>
   PatchClampExperiment_init (\<lambda>r. Entity_init ''Experiment'' []) (PBool False)
     [(''temperature'', PInt 20), (''cell'', PStr ''ADAL''), (''foo'', PInt 1)] =
     Inl (UnrecognizedArgument ''foo'') \<and>
   (\<exists>inst. PatchClampExperiment_init (\<lambda>r. Entity_init ''Experiment'' [''foo'']) (PBool False)
       [(''temperature'', PInt 20), (''cell'', PStr ''ADAL''), (''foo'', PInt 1)] = Inr inst \<and>
      attr_get inst ''temperature'' = Inr (One (Some (PInt 20))) \<and>
      attr_get inst ''cell'' = Inr (One (Some (PStr ''ADAL''))) \<and>
      attr_get inst ''foo'' = Inr (One (Some (PInt 1))))"
proof -
  let ?K = "[(''temperature'', PInt 20), (''cell'', PStr ''ADAL''), (''foo'', PInt 1)]"
  let ?E0 = "\<lambda>r :: pyval. Entity_init ''Experiment'' []"
  let ?E1 = "\<lambda>r :: pyval. Entity_init ''Experiment'' [''foo'']"
  let ?self = "\<lparr>props = [attribute ''Experiment'' ''foo'' Single Scalar [PInt 1]]\<rparr>"
  note t0 = PatchClampExperiment_partitions_kwargs [OF example_kwargs(1), of ?E0 "PBool False"]
  note t1 = PatchClampExperiment_partitions_kwargs [OF example_kwargs(1), of ?E1 "PBool False"]
  from t0 have e: "PatchClampExperiment_init ?E0 (PBool False) ?K =
      Inl (UnrecognizedArgument ''foo'')"
    by (simp only: example_kwargs(2) example_bases(1))
  from t1 have "\<exists>inst. PatchClampExperiment_init ?E1 (PBool False) ?K = Inr inst"
    using example_bases(2,3) by (simp only: example_kwargs(2))
  then obtain inst where i: "PatchClampExperiment_init ?E1 (PBool False) ?K = Inr inst" ..
  from t1 i have s: "\<forall>k. k \<notin> set conditions \<longrightarrow> attr_get inst k = attr_get ?self k"
    and c: "\<forall>(k, v) \<in> set ?K. k \<in> set conditions \<longrightarrow> attr_get inst k = Inr (One (Some v))"
    by (simp_all only: example_kwargs(2) example_bases(2)) auto
  from c example_kwargs(3,4) have
    "attr_get inst ''temperature'' = Inr (One (Some (PInt 20)))"
    "attr_get inst ''cell'' = Inr (One (Some (PStr ''ADAL'')))"
    by auto
  moreover from s have "attr_get inst ''foo'' = Inr (One (Some (PInt 1)))"
    by (simp add: conditions_def attr_get_def read_property_def)
  ultimately show ?thesis
    using e i example_kwargs(1) by blast
qed

text \<open>
  C2. On every \<^verbatim>\<open>PatchClampExperiment\<close> that is constructed, whatever the keyword
  arguments, the attributes the constructor declares after the base constructor's are
  exactly the 21 names of \<^verbatim>\<open>conditions\<close>, without repetition and in that order, each a
  single-valued scalar attribute declared by \<^verbatim>\<open>PatchClampExperiment\<close>. Each of them reads
  the value the keyword arguments give for its name, and no value if they give none.
\<close>

theorem PatchClampExperiment_declares_conditions:
  assumes "PatchClampExperiment_init E r kwargs = Inr inst"
  shows "\<exists>self. E r (filter (\<lambda>(k, v). k \<notin> set conditions) kwargs) = Inr self \<and>
           declared inst =
             declared self @
             map (\<lambda>c. (c, ''PatchClampExperiment'', Single, Scalar)) conditions \<and>
           length conditions = 21 \<and> distinct conditions \<and>
           (distinct (map fst kwargs) \<longrightarrow>
              (\<forall>c \<in> set conditions. attr_get inst c = Inr (One (map_of kwargs c))))"
proof -
  from assms obtain self :: entity where
    b: "E r (filter (\<lambda>(k, v). k \<notin> set conditions) kwargs) = Inr self" and
    f: "find (\<lambda>c. c \<in> set (map linkName (props self))) conditions = None" and
    i: "inst = \<lparr>props = props self @
                 map (\<lambda>c. attribute ''PatchClampExperiment'' c Single Scalar
                        (fold (\<lambda>(k, v) g. g(k := [v])) (slice_dict kwargs conditions)
                           (\<lambda>c. []) c))
                   conditions\<rparr>"
    unfolding PatchClampExperiment_init_fold
    by (auto split: sum.splits option.splits)
  have d: "declared inst =
             declared self @
             map (\<lambda>c. (c, ''PatchClampExperiment'', Single, Scalar)) conditions"
    by (simp add: declared_def i comp_def)
  have p: "attr_get inst c = Inr (One (map_of kwargs c))"
    if k: "distinct (map fst kwargs)" and c: "c \<in> set conditions" for c
  proof -
    from f c have n: "c \<notin> set (map linkName (props self))"
      by (auto simp add: find_None_iff)
    show ?thesis
      by (simp add: i condition_read [OF c n] fold_values [OF distinct_slice [OF k]]
          map_of_slice [OF c] split: option.splits)
  qed
  from b d p show ?thesis
    by (auto simp add: length_conditions distinct_conditions)
qed

theorem PatchClampExperiment_declares_conditions_witness:
  "\<exists>inst. PatchClampExperiment_init (\<lambda>r. Entity_init ''Experiment'' [''foo'']) (PBool False)
       [(''temperature'', PInt 20), (''cell'', PStr ''ADAL''), (''foo'', PInt 1)] = Inr inst \<and>
     declared inst =
       (''foo'', ''Experiment'', Single, Scalar) #
       map (\<lambda>c. (c, ''PatchClampExperiment'', Single, Scalar)) conditions \<and>
     distinct (map fst [(''temperature'', PInt 20), (''cell'', PStr ''ADAL''), (''foo'', PInt 1)]) \<and>
     ''temperature'' \<in> set conditions \<and> ''type'' \<in> set conditions \<and>
     attr_get inst ''temperature'' = Inr (One (Some (PInt 20))) \<and>
     attr_get inst ''type'' = Inr (One None)"
proof -
  let ?K = "[(''temperature'', PInt 20), (''cell'', PStr ''ADAL''), (''foo'', PInt 1)]"
  let ?E1 = "\<lambda>r :: pyval. Entity_init ''Experiment'' [''foo'']"
  let ?self = "\<lparr>props = [attribute ''Experiment'' ''foo'' Single Scalar [PInt 1]]\<rparr>"
  have "find (\<lambda>c. c \<in> set (map linkName (props ?self))) conditions = None"
    using example_bases(3) by (auto simp add: find_None_iff)
  then have "\<exists>inst. PatchClampExperiment_init ?E1 (PBool False) ?K = Inr inst"
    unfolding PatchClampExperiment_init_fold example_kwargs(2) example_bases(2)
    by simp
  then obtain inst where i: "PatchClampExperiment_init ?E1 (PBool False) ?K = Inr inst" ..
  from PatchClampExperiment_declares_conditions [OF i] have
    d: "declared inst = declared ?self @
          map (\<lambda>c. (c, ''PatchClampExperiment'', Single, Scalar)) conditions" and
    p: "\<forall>c \<in> set conditions. attr_get inst c = Inr (One (map_of ?K c))"
    using example_kwargs(1) by (simp_all only: example_kwargs(2) example_bases(2)) auto
  have t: "''type'' \<in> set conditions"
    by (simp add: conditions_def)
  from p example_kwargs(3) t have
    "attr_get inst ''temperature'' = Inr (One (Some (PInt 20)))"
    "attr_get inst ''type'' = Inr (One None)"
    by auto
  moreover from d have "declared inst =
       (''foo'', ''Experiment'', Single, Scalar) #
       map (\<lambda>c. (c, ''PatchClampExperiment'', Single, Scalar)) conditions"
    by (simp add: declared_def)
  ultimately show ?thesis
    using i example_kwargs(1,3) t by blast
qed

section \<open>A claim about both constructors\<close>

text \<open>
  C6, as the code has it. The classes of the source declare their attributes inside
  \<^verbatim>\<open>__init__\<close>, on the instance under construction, so a name that an ancestor's
  constructor has already declared is met when an instance is constructed: if the base
  constructor returns an instance on which a condition name is declared, the
  \<^verbatim>\<open>PatchClampExperiment\<close> constructor ends with \<open>SchemaConflict\<close> for the first such
  name of \<^verbatim>\<open>conditions\<close>; if it returns one on which \<^verbatim>\<open>modelType\<close>, \<^verbatim>\<open>ion\<close>,
  \<^verbatim>\<open>gating\<close> or \<^verbatim>\<open>conductance\<close> is declared, the \<^verbatim>\<open>ChannelModel\<close> constructor ends with
  \<open>SchemaConflict\<close> for the first of these.
\<close>

theorem SchemaConflict_at_construction:
  "(E r (filter (\<lambda>(k, v). k \<notin> set conditions) kwargs) = Inr self \<and>
      find (\<lambda>c. c \<in> set (map linkName (props self))) conditions = Some c \<longrightarrow>
      PatchClampExperiment_init E r kwargs = Inl (SchemaConflict c)) \<and>
   (D args kwargs' = Inr self' \<and>
      find (\<lambda>n. n \<in> set (map linkName (props self')))
        [''modelType'', ''ion'', ''gating'', ''conductance''] = Some n \<longrightarrow>
      ChannelModel_init D mt args kwargs' = Inl (SchemaConflict n))"
  by (simp add: PatchClampExperiment_init_fold ChannelModel_init_char)

theorem SchemaConflict_at_construction_witness:
  "Entity_init ''Experiment'' [''type''] [] =
     Inr \<lparr>props = [attribute ''Experiment'' ''type'' Single Scalar []]\<rparr> \<and>
   PatchClampExperiment_init (\<lambda>r. Entity_init ''Experiment'' [''type'']) (PBool False) [] =
     Inl (SchemaConflict ''type'') \<and>
   Entity_init ''DataObject'' [''ion''] [] =
     Inr \<lparr>props = [attribute ''DataObject'' ''ion'' Single Scalar []]\<rparr> \<and>
   ChannelModel_init (\<lambda>args. Entity_init ''DataObject'' [''ion'']) (PBool False) [] [] =
     Inl (SchemaConflict ''ion'')"
  using SchemaConflict_at_construction
    [of "\<lambda>r. Entity_init ''Experiment'' [''type'']" "PBool False" "[]"
        "\<lparr>props = [attribute ''Experiment'' ''type'' Single Scalar []]\<rparr>" "''type''"
        "\<lambda>args. Entity_init ''DataObject'' [''ion'']" "[]" "[]"
        "\<lparr>props = [attribute ''DataObject'' ''ion'' Single Scalar []]\<rparr>" "''ion''"
        "PBool False"]
    conflicting_bases
  by simp

text \<open>
  A conflict that is raised while an instance is constructed, not while a class is
  defined: over a base class \<^verbatim>\<open>Experiment\<close> that declares \<^verbatim>\<open>type\<close>, the call
  \<^verbatim>\<open>PatchClampExperiment()\<close> ends with \<open>SchemaConflict\<close>.
\<close>

theorem SchemaConflict_counterexample:
  "PatchClampExperiment_init (\<lambda>r. Entity_init ''Experiment'' [''type'']) (PBool False) [] =
     Inl (SchemaConflict ''type'')"
proof -
  have "find (\<lambda>c. c = ''type'') conditions = Some ''type''"
    by (simp add: conditions_def)
  then show ?thesis
    by (simp add: PatchClampExperiment_init_fold conflicting_bases(1))
qed

end
